theory Spec2Isabelle
  imports Complex_Main
begin

section \<open>Image co-alignment helpers (sunpy/image/coalignment.py)\<close>

text \<open>
  A shallow embedding of the helper functions of \<^verbatim>\<open>sunpy/image/coalignment.py\<close>.
  The module works on numpy arrays of floating point numbers.  The embedding keeps
  the special values of the float type (the module exists to repair them) and takes
  the arithmetic on finite values as exact: rounding, overflow of a finite result
  and the sign of zero are not modelled.
\<close>

subsection \<open>Floating point values\<close>

datatype fl = Fin real | PInf | NInf | NaN

fun isfinite :: "fl \<Rightarrow> bool" where
  "isfinite (Fin r) = True"
| "isfinite PInf = False"
| "isfinite NInf = False"
| "isfinite NaN = False"

fun fneg :: "fl \<Rightarrow> fl" where
  "fneg (Fin a) = Fin (- a)"
| "fneg PInf = NInf"
| "fneg NInf = PInf"
| "fneg NaN = NaN"

fun fadd :: "fl \<Rightarrow> fl \<Rightarrow> fl" where
  "fadd (Fin a) (Fin b) = Fin (a + b)"
| "fadd NaN y = NaN"
| "fadd x NaN = NaN"
| "fadd PInf NInf = NaN"
| "fadd NInf PInf = NaN"
| "fadd PInf y = PInf"
| "fadd NInf y = NInf"
| "fadd x PInf = PInf"
| "fadd x NInf = NInf"

definition fsub :: "fl \<Rightarrow> fl \<Rightarrow> fl" where
  "fsub x y = fadd x (fneg y)"

text \<open>The infinity of the sign of a finite, non-zero number.\<close>

definition inf_of_sign :: "real \<Rightarrow> fl" where
  "inf_of_sign a = (if 0 < a then PInf else NInf)"

fun fmul :: "fl \<Rightarrow> fl \<Rightarrow> fl" where
  "fmul (Fin a) (Fin b) = Fin (a * b)"
| "fmul NaN y = NaN"
| "fmul x NaN = NaN"
| "fmul (Fin a) PInf = (if a = 0 then NaN else inf_of_sign a)"
| "fmul (Fin a) NInf = (if a = 0 then NaN else inf_of_sign (- a))"
| "fmul PInf (Fin b) = (if b = 0 then NaN else inf_of_sign b)"
| "fmul NInf (Fin b) = (if b = 0 then NaN else inf_of_sign (- b))"
| "fmul PInf PInf = PInf"
| "fmul PInf NInf = NInf"
| "fmul NInf PInf = NInf"
| "fmul NInf NInf = PInf"

text \<open>
  Division of numpy floats never raises: a zero divisor gives an infinity, or NaN for
  \<open>0 / 0\<close>.  A zero divisor counts as \<open>+0\<close>.
\<close>

fun fdiv :: "fl \<Rightarrow> fl \<Rightarrow> fl" where
  "fdiv (Fin a) (Fin b) =
     (if b = 0 then (if a = 0 then NaN else inf_of_sign a) else Fin (a / b))"
| "fdiv NaN y = NaN"
| "fdiv x NaN = NaN"
| "fdiv (Fin a) PInf = Fin 0"
| "fdiv (Fin a) NInf = Fin 0"
| "fdiv PInf (Fin b) = (if 0 \<le> b then PInf else NInf)"
| "fdiv NInf (Fin b) = (if 0 \<le> b then NInf else PInf)"
| "fdiv PInf PInf = NaN"
| "fdiv PInf NInf = NaN"
| "fdiv NInf PInf = NaN"
| "fdiv NInf NInf = NaN"

text \<open>The comparison \<open>x <= y\<close> of floats: false as soon as one side is NaN.\<close>

fun fle :: "fl \<Rightarrow> fl \<Rightarrow> bool" where
  "fle NaN y = False"
| "fle x NaN = False"
| "fle NInf y = True"
| "fle x PInf = True"
| "fle PInf y = False"
| "fle x NInf = False"
| "fle (Fin a) (Fin b) = (a \<le> b)"

subsection \<open>Errors\<close>

datatype error = ValueError | TypeError

subsection \<open>Two-dimensional arrays\<close>

text \<open>
  A 2-d numpy array: its shape and its rows.  The shape is kept apart from the rows
  because an array with no rows still has a number of columns.
\<close>

record 'a ndarray =
  shape0 :: nat
  shape1 :: nat
  rows :: "'a list list"

definition wf_array :: "'a ndarray \<Rightarrow> bool" where
  "wf_array a \<longleftrightarrow>
     length (rows a) = shape0 a \<and> list_all (\<lambda>r. length r = shape1 a) (rows a)"

definition cell :: "'a ndarray \<Rightarrow> nat \<Rightarrow> nat \<Rightarrow> 'a" where
  "cell a i j = rows a ! i ! j"

text \<open>The entries in C order, as \<^verbatim>\<open>ravel\<close> gives them.\<close>

definition ravel :: "'a ndarray \<Rightarrow> 'a list" where
  "ravel a = concat (rows a)"

text \<open>
  Python's slice \<^verbatim>\<open>[start:stop]\<close> on an axis of length \<open>n\<close>: a negative bound
  counts from the end, and both bounds are clipped to the axis.
\<close>

definition slice_bound :: "int \<Rightarrow> nat \<Rightarrow> nat" where
  "slice_bound i n = (if i < 0 then nat (max 0 (i + int n)) else min (nat i) n)"

definition slice_len :: "int \<Rightarrow> int \<Rightarrow> nat \<Rightarrow> nat" where
  "slice_len start stop n = slice_bound stop n - slice_bound start n"

definition slice :: "int \<Rightarrow> int \<Rightarrow> 'a list \<Rightarrow> 'a list" where
  "slice start stop xs =
     take (slice_len start stop (length xs)) (drop (slice_bound start (length xs)) xs)"

text \<open>\<^verbatim>\<open>a[r0:r1, c0:c1]\<close>\<close>

definition slice2 :: "'a ndarray \<Rightarrow> int \<Rightarrow> int \<Rightarrow> int \<Rightarrow> int \<Rightarrow> 'a ndarray" where
  "slice2 a r0 r1 c0 c1 =
     \<lparr>shape0 = slice_len r0 r1 (shape0 a),
      shape1 = slice_len c0 c1 (shape1 a),
      rows = map (slice c0 c1) (slice r0 r1 (rows a))\<rparr>"

text \<open>\<^verbatim>\<open>np.unravel_index(k, shape)\<close> for a valid flat index \<open>k\<close>.\<close>

definition unravel_index :: "nat \<Rightarrow> nat \<times> nat \<Rightarrow> nat \<times> nat" where
  "unravel_index k shp = (k div snd shp, k mod snd shp)"

text \<open>
  \<^verbatim>\<open>np.argmax\<close> on floats: the first index of the maximum, where a NaN counts as
  the maximum; an empty array raises.
\<close>

fun argmax_loop :: "fl \<Rightarrow> nat \<Rightarrow> nat \<Rightarrow> fl list \<Rightarrow> nat" where
  "argmax_loop mp mi i [] = mi"
| "argmax_loop mp mi i (v # vs) =
     (if \<not> fle v mp
      then (if v = NaN then i else argmax_loop v i (Suc i) vs)
      else argmax_loop mp mi (Suc i) vs)"

definition argmax :: "fl list \<Rightarrow> error + nat" where
  "argmax xs =
     (case xs of
        [] \<Rightarrow> Inl ValueError
      | v # vs \<Rightarrow> Inr (if v = NaN then 0 else argmax_loop v 0 1 vs))"

subsection \<open>The parabolic fit\<close>

text \<open>\<^verbatim>\<open>y.dot(w)\<close> for one-dimensional operands; their lengths must agree.\<close>

definition dot :: "fl list \<Rightarrow> fl list \<Rightarrow> error + fl" where
  "dot y w =
     (if length y = length w then Inr (foldl fadd (Fin 0) (map2 fmul y w))
      else Inl ValueError)"

definition parabolic_turning_point :: "fl list \<Rightarrow> error + fl" where
  "parabolic_turning_point y =
     (case dot y [Fin (- 1), Fin 0, Fin 1] of
        Inl e \<Rightarrow> Inl e
      | Inr d1 \<Rightarrow>
          (let numerator = fmul (Fin (- 0.5)) d1 in
           case dot y [Fin 1, Fin (- 2), Fin 1] of
             Inl e \<Rightarrow> Inl e
           | Inr denominator \<Rightarrow> Inr (fdiv numerator denominator)))"

text \<open>
  The closed form of the specification:
  \<open>-0.5 * (y[2] - y[0]) / (y[0] - 2 * y[1] + y[2])\<close>, in the same arithmetic.
\<close>

definition turning_point_formula :: "fl \<Rightarrow> fl \<Rightarrow> fl \<Rightarrow> fl" where
  "turning_point_formula y0 y1 y2 =
     fdiv (fmul (Fin (- 0.5)) (fsub y2 y0))
          (fadd (fsub y0 (fmul (Fin 2) y1)) y2)"

subsection \<open>Sub-pixel refinement\<close>

text \<open>
  \<^verbatim>\<open>get_correlation_shifts\<close> returns what it printed and its result: the pair
  \<^verbatim>\<open>(None, None)\<close> is \<open>None\<close>.
\<close>

definition too_big_message :: string where
  "too_big_message = ''Input array is too big in at least one dimension. Returning Nones''"

definition get_correlation_shifts ::
  "fl ndarray \<Rightarrow> string list \<times> (error + (fl \<times> fl) option)" where
  "get_correlation_shifts array =
     (let ny = shape0 array; nx = shape1 array in
      if nx > 3 \<or> ny > 3 then ([too_big_message], Inr None)
      else
        ([],
         case argmax (ravel array) of
           Inl e \<Rightarrow> Inl e
         | Inr k \<Rightarrow>
             (let (y_max_location, x_max_location) = unravel_index k (ny, nx) in
              case (if ny = 3
                    then parabolic_turning_point (map (\<lambda>r. r ! x_max_location) (rows array))
                    else Inr (fmul (Fin 1) (Fin (real y_max_location)))) of
                Inl e \<Rightarrow> Inl e
              | Inr y_location \<Rightarrow>
                  (case (if nx = 3
                         then parabolic_turning_point (rows array ! y_max_location)
                         else Inr (fmul (Fin 1) (Fin (real x_max_location)))) of
                     Inl e \<Rightarrow> Inl e
                   | Inr x_location \<Rightarrow> Inr (Some (y_location, x_location))))))"

subsection \<open>Peak location\<close>

text \<open>The window of the correlation array that is cut around the maximum.\<close>

definition array_around_maximum :: "fl ndarray \<Rightarrow> nat \<Rightarrow> nat \<Rightarrow> fl ndarray" where
  "array_around_maximum corr cor_max_y cor_max_x =
     slice2 corr
       (max 0 (int cor_max_y - 1)) (min (int cor_max_y + 2) (int (shape0 corr) - 1))
       (max 0 (int cor_max_x - 1)) (min (int cor_max_x + 2) (int (shape1 corr) - 1))"

text \<open>\<^verbatim>\<open>np.unravel_index(np.argmax(corr), corr.shape)\<close>: the row and the column of the maximum.\<close>

definition peak :: "fl ndarray \<Rightarrow> error + nat \<times> nat" where
  "peak corr =
     (case argmax (ravel corr) of
        Inl e \<Rightarrow> Inl e
      | Inr k \<Rightarrow> Inr (unravel_index k (shape0 corr, shape1 corr)))"

text \<open>Adding an integer index to a refinement result; \<^verbatim>\<open>None + int\<close> raises.\<close>

definition find_best_match_location ::
  "fl ndarray \<Rightarrow> string list \<times> (error + fl \<times> fl)" where
  "find_best_match_location corr =
     (case peak corr of
        Inl e \<Rightarrow> ([], Inl e)
      | Inr (cor_max_y, cor_max_x) \<Rightarrow>
          (case get_correlation_shifts (array_around_maximum corr cor_max_y cor_max_x) of
             (out, Inl e) \<Rightarrow> (out, Inl e)
           | (out, Inr None) \<Rightarrow> (out, Inl TypeError)
           | (out, Inr (Some (y_shift_relative_to_maximum, x_shift_relative_to_maximum))) \<Rightarrow>
               (out,
                Inr (fadd y_shift_relative_to_maximum (Fin (real cor_max_y)),
                     fadd x_shift_relative_to_maximum (Fin (real cor_max_x))))))"

subsection \<open>Repair of non-finite entries\<close>

text \<open>
  \<^verbatim>\<open>np.where(np.logical_not(np.isfinite(z)))\<close>: the positions of the non-finite
  entries, in C order.
\<close>

definition bad_index :: "fl ndarray \<Rightarrow> (nat \<times> nat) list" where
  "bad_index z =
     [(i, j). i \<leftarrow> [0..<shape0 z], j \<leftarrow> [0..<shape1 z], \<not> isfinite (cell z i j)]"

text \<open>
  The centre of the window along one axis.  The source assigns the index, then
  overrides it at index 0, then overrides it again at the last index.
\<close>

definition window_centre :: "nat \<Rightarrow> nat \<Rightarrow> int" where
  "window_centre b n =
     (if int b = int n - 1 then int n - 2 else if b = 0 then 1 else int b)"

definition subarray :: "fl ndarray \<Rightarrow> nat \<Rightarrow> nat \<Rightarrow> fl ndarray" where
  "subarray z by bx =
     (let x = window_centre bx (shape1 z); y = window_centre by (shape0 z)
      in slice2 z (y - 1) (y + 2) (x - 1) (x + 2))"

text \<open>
  \<^verbatim>\<open>subarray * np.isfinite(subarray)\<close>: a finite entry times one, a non-finite
  entry times zero, which is NaN.
\<close>

definition times_isfinite :: "fl \<Rightarrow> fl" where
  "times_isfinite v = fmul v (Fin (if isfinite v then 1 else 0))"

text \<open>\<^verbatim>\<open>np.nanmean\<close>: the sum of the entries that are not NaN over their number.\<close>

definition nanmean :: "fl list \<Rightarrow> fl" where
  "nanmean vs =
     (let good = filter (\<lambda>v. v \<noteq> NaN) vs
      in fdiv (foldl fadd (Fin 0) good) (Fin (real (length good))))"

definition setitem :: "'a ndarray \<Rightarrow> nat \<Rightarrow> nat \<Rightarrow> 'a \<Rightarrow> 'a ndarray" where
  "setitem z i j v = z\<lparr>rows := (rows z)[i := (rows z ! i)[j := v]]\<rparr>"

text \<open>One turn of the loop, at the first bad position \<open>(by, bx)\<close>.\<close>

definition repair_step :: "fl ndarray \<Rightarrow> nat \<times> nat \<Rightarrow> fl ndarray" where
  "repair_step z b =
     (case b of (by, bx) \<Rightarrow>
        setitem z by bx (nanmean (map times_isfinite (ravel (subarray z by bx)))))"

text \<open>The loop may run forever: \<open>None\<close> is the call that never returns.\<close>

partial_function (option) repair_nonfinite :: "fl ndarray \<Rightarrow> fl ndarray option" where
  "repair_nonfinite z =
     (case bad_index z of
        [] \<Rightarrow> Some z
      | b # _ \<Rightarrow> repair_nonfinite (repair_step z b))"

subsection \<open>The shift of a template on a layer\<close>

text \<open>
  \<^verbatim>\<open>match_template\<close> belongs to scikit-image; it is a parameter here.  It may
  raise.  A call of \<^verbatim>\<open>calculate_shift\<close> never returns (\<open>None\<close>) when a repair
  never returns.
\<close>

definition match_template_to_layer ::
  "(fl ndarray \<Rightarrow> fl ndarray \<Rightarrow> error + fl ndarray) \<Rightarrow>
   fl ndarray \<Rightarrow> fl ndarray \<Rightarrow> error + fl ndarray" where
  "match_template_to_layer match_template layer template = match_template layer template"

definition calculate_shift ::
  "(fl ndarray \<Rightarrow> fl ndarray \<Rightarrow> error + fl ndarray) \<Rightarrow>
   fl ndarray \<Rightarrow> fl ndarray \<Rightarrow> (string list \<times> (error + fl \<times> fl)) option" where
  "calculate_shift match_template this_layer template =
     (case repair_nonfinite this_layer of
        None \<Rightarrow> None
      | Some this_layer' \<Rightarrow>
          (case repair_nonfinite template of
             None \<Rightarrow> None
           | Some template' \<Rightarrow>
               (case match_template_to_layer match_template this_layer' template' of
                  Inl e \<Rightarrow> Some ([], Inl e)
                | Inr corr \<Rightarrow> Some (find_best_match_location corr))))"

subsection \<open>Clipping the edges of a datacube\<close>

text \<open>
  The shift arrays hold finite pixel values.  The clip margins are used as slice
  bounds, so they are integers here.
\<close>

definition upper_clip :: "real list \<Rightarrow> int" where
  "upper_clip z =
     (case map ceiling (filter (\<lambda>v. 0 \<le> v) z) of
        [] \<Rightarrow> 0
      | c # cs \<Rightarrow> fold max cs c)"

definition lower_clip :: "real list \<Rightarrow> int" where
  "lower_clip z =
     (case map (\<lambda>v. ceiling (- v)) (filter (\<lambda>v. v \<le> 0) z) of
        [] \<Rightarrow> 0
      | c # cs \<Rightarrow> fold max cs c)"

record 'a datacube =
  cshape0 :: nat
  cshape1 :: nat
  cshape2 :: nat
  planes :: "'a list list list"

definition wf_cube :: "'a datacube \<Rightarrow> bool" where
  "wf_cube d \<longleftrightarrow>
     length (planes d) = cshape0 d \<and>
     list_all (\<lambda>p. length p = cshape1 d \<and> list_all (\<lambda>r. length r = cshape2 d) p) (planes d)"

text \<open>\<^verbatim>\<open>d[a0:a1, b0:b1, c0:c1]\<close>\<close>

definition slice3 ::
  "'a datacube \<Rightarrow> int \<Rightarrow> int \<Rightarrow> int \<Rightarrow> int \<Rightarrow> int \<Rightarrow> int \<Rightarrow> 'a datacube" where
  "slice3 d a0 a1 b0 b1 c0 c1 =
     \<lparr>cshape0 = slice_len a0 a1 (cshape0 d),
      cshape1 = slice_len b0 b1 (cshape1 d),
      cshape2 = slice_len c0 c1 (cshape2 d),
      planes = map (\<lambda>p. map (slice c0 c1) (slice b0 b1 p)) (slice a0 a1 (planes d))\<rparr>"

definition clip_edges :: "'a datacube \<Rightarrow> real list \<Rightarrow> real list \<Rightarrow> 'a datacube" where
  "clip_edges datacube y x =
     (let ny = int (cshape0 datacube);
          nx = int (cshape1 datacube);
          nt = int (cshape2 datacube);
          xupper = upper_clip x;
          xlower = lower_clip x;
          yupper = upper_clip y;
          ylower = lower_clip y
      in slice3 datacube ylower (ny - yupper - 1) xlower (nx - xupper - 1) 0 nt)"

text \<open>The clip margins in the words of the specification.\<close>

definition margin_upper :: "real list \<Rightarrow> int" where
  "margin_upper z =
     (if \<exists>v \<in> set z. 0 \<le> v then Max ((\<lambda>v. \<lceil>v\<rceil>) ` {v \<in> set z. 0 \<le> v}) else 0)"

definition margin_lower :: "real list \<Rightarrow> int" where
  "margin_lower z =
     (if \<exists>v \<in> set z. v \<le> 0 then Max ((\<lambda>v. \<lceil>- v\<rceil>) ` {v \<in> set z. v \<le> 0}) else 0)"

section \<open>Notions of the specification\<close>

subsection \<open>The local mean\<close>



subsection \<open>Windows\<close>












subsection \<open>The neighbourhood of the peak\<close>

text \<open>
  The rows (or columns) of the neighbourhood in the words of the specification: the
  indices \<open>i\<close> with \<open>max(0, p - 1) \<le> i < min(p + 2, n - 1)\<close>, around the peak index
  \<open>p\<close> on an axis of length \<open>n\<close>.
\<close>

definition peak_range :: "nat \<Rightarrow> nat \<Rightarrow> nat list" where
  "peak_range p n = [nat (max 0 (int p - 1))..<nat (min (int p + 2) (int n - 1))]"

definition neighbourhood :: "'a ndarray \<Rightarrow> nat \<Rightarrow> nat \<Rightarrow> 'a ndarray" where
  "neighbourhood corr row col =
     \<lparr>shape0 = length (peak_range row (shape0 corr)),
      shape1 = length (peak_range col (shape1 corr)),
      rows = map (\<lambda>i. map (\<lambda>j. cell corr i j) (peak_range col (shape1 corr)))
               (peak_range row (shape0 corr))\<rparr>"

subsection \<open>The clipped datacube\<close>

text \<open>
  \<^verbatim>\<open>d[a0:a1, b0:b1, :]\<close>
\<close>

definition subcube :: "'a datacube \<Rightarrow> int \<Rightarrow> int \<Rightarrow> int \<Rightarrow> int \<Rightarrow> 'a datacube" where
  "subcube d a0 a1 b0 b1 =
     \<lparr>cshape0 = slice_len a0 a1 (cshape0 d),
      cshape1 = slice_len b0 b1 (cshape1 d),
      cshape2 = cshape2 d,
      planes = map (slice b0 b1) (slice a0 a1 (planes d))\<rparr>"

subsection \<open>Example arrays\<close>

definition finite_example :: "fl ndarray" where
  "finite_example = \<lparr>shape0 = 2, shape1 = 3,
     rows = [[Fin 1, Fin 2, Fin 3], [Fin 4, Fin 5, Fin 6]]\<rparr>"







definition peak_example :: "fl ndarray" where
  "peak_example = \<lparr>shape0 = 4, shape1 = 4,
     rows = [[Fin 0, Fin (1 / 2), Fin 0, Fin 0], [Fin (1 / 4), Fin 1, Fin (1 / 4), Fin 0],
             [Fin 0, Fin (3 / 4), Fin 0, Fin 0], [Fin 0, Fin 0, Fin 0, Fin 0]]\<rparr>"


definition cube_example :: "(nat \<times> nat \<times> nat) datacube" where
  "cube_example = \<lparr>cshape0 = 10, cshape1 = 10, cshape2 = 3,
     planes = map (\<lambda>i. map (\<lambda>j. [(i, j, 0), (i, j, 1), (i, j, 2)]) [0..<10]) [0..<10]\<rparr>"

section \<open>Properties\<close>

subsection \<open>The parabolic fit\<close>

lemma dot3:
  "dot [y0, y1, y2] [w0, w1, w2] =
     Inr (fadd (fadd (fadd (Fin 0) (fmul y0 w0)) (fmul y1 w1)) (fmul y2 w2))"
  by (simp add: dot_def)

lemma dot_length: "length y \<noteq> length w \<Longrightarrow> dot y w = Inl ValueError"
  by (simp add: dot_def)

text \<open>
  C4, as stated: for every three-element array the turning point is the closed form.
  It fails where the middle entry is infinite: the dot product multiplies it by zero,
  which is NaN, while the closed form never touches it in the numerator.
\<close>

theorem parabolic_turning_point_infinite_middle:
  "parabolic_turning_point [Fin 0, PInf, Fin 0] = Inr NaN \<and>
   turning_point_formula (Fin 0) PInf (Fin 0) = Fin 0 \<and>
   parabolic_turning_point [Fin 0, PInf, Fin 0] \<noteq>
     Inr (turning_point_formula (Fin 0) PInf (Fin 0))"
  by (simp add: parabolic_turning_point_def dot3 turning_point_formula_def fsub_def
      inf_of_sign_def)

text \<open>
  C4, amended: for every three-element array whose middle entry is not an infinity,
  \<^verbatim>\<open>parabolic_turning_point\<close> returns
  \<open>-0.5 * (y[2] - y[0]) / (y[0] - 2 * y[1] + y[2])\<close>; on \<open>[1, 2, 1]\<close> it returns 0.
\<close>

theorem parabolic_turning_point_closed_form:
  "(y1 \<noteq> PInf \<and> y1 \<noteq> NInf \<longrightarrow>
      parabolic_turning_point [y0, y1, y2] = Inr (turning_point_formula y0 y1 y2)) \<and>
   parabolic_turning_point [Fin 1, Fin 2, Fin 1] = Inr (Fin 0)"
proof
  show "y1 \<noteq> PInf \<and> y1 \<noteq> NInf \<longrightarrow>
      parabolic_turning_point [y0, y1, y2] = Inr (turning_point_formula y0 y1 y2)"
    by (cases y0; cases y1; cases y2)
       (simp_all add: parabolic_turning_point_def dot3 turning_point_formula_def fsub_def
          inf_of_sign_def)
  show "parabolic_turning_point [Fin 1, Fin 2, Fin 1] = Inr (Fin 0)"
    by (simp add: parabolic_turning_point_def dot3)
qed

theorem parabolic_turning_point_closed_form_witness:
  "Fin 3 \<noteq> PInf \<and> Fin 3 \<noteq> NInf \<and>
   parabolic_turning_point [Fin 1, Fin 3, Fin 2] = Inr (Fin (1 / 6))"
  using parabolic_turning_point_closed_form [of "Fin 3" "Fin 1" "Fin 2"]
  by (simp add: turning_point_formula_def fsub_def)

subsection \<open>Sub-pixel refinement\<close>

text \<open>
  C5: an array with a dimension above 3 makes \<^verbatim>\<open>get_correlation_shifts\<close> print
  its message and return the pair of Nones; it raises nothing.
\<close>

theorem get_correlation_shifts_too_big:
  "3 < shape0 a \<or> 3 < shape1 a \<Longrightarrow>
   get_correlation_shifts a = ([too_big_message], Inr None)"
  by (auto simp: get_correlation_shifts_def Let_def)

theorem get_correlation_shifts_too_big_witness:
  "get_correlation_shifts
     \<lparr>shape0 = 4, shape1 = 3,
      rows = [[Fin 0, Fin 1, Fin 0], [Fin 1, Fin 5, Fin 1],
              [Fin 0, Fin 1, Fin 0], [Fin 0, Fin 0, Fin 0]]\<rparr>
   = ([too_big_message], Inr None)"
  using get_correlation_shifts_too_big
    [of "\<lparr>shape0 = 4, shape1 = 3,
      rows = [[Fin 0, Fin 1, Fin 0], [Fin 1, Fin 5, Fin 1],
              [Fin 0, Fin 1, Fin 0], [Fin 0, Fin 0, Fin 0]]\<rparr>"]
  by simp

subsection \<open>Slices and cells\<close>

lemma slice_bound_le: "slice_bound i n \<le> n"
  by (auto simp: slice_bound_def)

lemma take_drop_nth: "hi \<le> length xs \<Longrightarrow> take (hi - lo) (drop lo xs) = map ((!) xs) [lo..<hi]"
  by (rule nth_equalityI) auto

lemma slice_nth:
  "slice start stop xs =
     map ((!) xs) [slice_bound start (length xs)..<slice_bound stop (length xs)]"
  unfolding slice_def slice_len_def by (rule take_drop_nth) (rule slice_bound_le)

lemma length_slice: "length (slice start stop xs) = slice_len start stop (length xs)"
  by (simp add: slice_nth slice_len_def)

lemma wf_arrayD:
  "wf_array a \<Longrightarrow> length (rows a) = shape0 a"
  "wf_array a \<Longrightarrow> i < shape0 a \<Longrightarrow> length (rows a ! i) = shape1 a"
  by (auto simp: wf_array_def list_all_length)

lemma wf_arrayI:
  "length (rows a) = shape0 a \<Longrightarrow> (\<And>i. i < shape0 a \<Longrightarrow> length (rows a ! i) = shape1 a) \<Longrightarrow> wf_array a"
  by (auto simp: wf_array_def list_all_length)

lemma rows_slice2:
  assumes "wf_array a"
  shows "rows (slice2 a r0 r1 c0 c1) =
     map (\<lambda>i. map (\<lambda>j. cell a i j) [slice_bound c0 (shape1 a)..<slice_bound c1 (shape1 a)])
       [slice_bound r0 (shape0 a)..<slice_bound r1 (shape0 a)]"
proof -
  have "i < shape0 a \<Longrightarrow> slice c0 c1 (rows a ! i) =
      map (\<lambda>j. cell a i j) [slice_bound c0 (shape1 a)..<slice_bound c1 (shape1 a)]" for i
    using assms by (simp add: slice_nth wf_arrayD cell_def)
  moreover have "i \<in> set [slice_bound r0 (shape0 a)..<slice_bound r1 (shape0 a)] \<Longrightarrow> i < shape0 a" for i
    using slice_bound_le [of r1 "shape0 a"] by simp
  ultimately show ?thesis
    using assms by (simp add: slice2_def slice_nth wf_arrayD)
qed

lemma wf_slice2: "wf_array a \<Longrightarrow> wf_array (slice2 a r0 r1 c0 c1)"
  by (rule wf_arrayI) (simp_all add: rows_slice2, simp_all add: slice2_def slice_len_def)

lemma shape_slice2:
  "shape0 (slice2 a r0 r1 c0 c1) = slice_len r0 r1 (shape0 a)"
  "shape1 (slice2 a r0 r1 c0 c1) = slice_len c0 c1 (shape1 a)"
  by (simp_all add: slice2_def)


lemma set_ravel_slice2:
  assumes "wf_array a"
  shows "set (ravel (slice2 a r0 r1 c0 c1)) =
     {cell a i j | i j.
        slice_bound r0 (shape0 a) \<le> i \<and> i < slice_bound r1 (shape0 a) \<and>
        slice_bound c0 (shape1 a) \<le> j \<and> j < slice_bound c1 (shape1 a)}"
  using assms by (fastforce simp: ravel_def rows_slice2)

lemma set_ravel:
  assumes "wf_array a"
  shows "set (ravel a) = {cell a i j | i j. i < shape0 a \<and> j < shape1 a}"
proof -
  have "v \<in> set (ravel a) \<longleftrightarrow> (\<exists>i<shape0 a. \<exists>j<shape1 a. v = cell a i j)" for v
  proof
    assume "v \<in> set (ravel a)"
    then obtain r where "r \<in> set (rows a)" "v \<in> set r" by (auto simp: ravel_def)
    then obtain i j where "i < length (rows a)" "r = rows a ! i" "j < length r" "v = r ! j"
      by (metis in_set_conv_nth)
    then show "\<exists>i<shape0 a. \<exists>j<shape1 a. v = cell a i j"
      using assms by (auto simp: cell_def wf_arrayD)
  next
    assume "\<exists>i<shape0 a. \<exists>j<shape1 a. v = cell a i j"
    then obtain i j where ij: "i < shape0 a" "j < shape1 a" "v = cell a i j" by blast
    then have "rows a ! i \<in> set (rows a)" "v \<in> set (rows a ! i)"
      using assms by (simp_all add: cell_def wf_arrayD)
    then show "v \<in> set (ravel a)" by (auto simp: ravel_def)
  qed
  then show ?thesis by blast
qed

lemma shape_setitem [simp]:
  "shape0 (setitem z i j v) = shape0 z" "shape1 (setitem z i j v) = shape1 z"
  by (simp_all add: setitem_def)



subsection \<open>The local mean of a window\<close>










subsection \<open>The repair loop\<close>

lemma set_bad_index:
  "set (bad_index z) = {(i, j). i < shape0 z \<and> j < shape1 z \<and> \<not> isfinite (cell z i j)}"
  by (auto simp: bad_index_def)

lemma bad_index_Nil:
  "bad_index z = [] \<longleftrightarrow> (\<forall>i < shape0 z. \<forall>j < shape1 z. isfinite (cell z i j))"
  using set_bad_index [of z] by (auto simp flip: set_empty)

lemma repair_unfold_Nil: "bad_index z = [] \<Longrightarrow> repair_nonfinite z = Some z"
  by (subst repair_nonfinite.simps) simp








text \<open>
  C8: on an array whose entries are all finite, \<^verbatim>\<open>repair_nonfinite\<close> returns the
  array as it is.
\<close>

theorem repair_nonfinite_noop:
  assumes "wf_array z" "\<forall>v \<in> set (ravel z). isfinite v"
  shows "repair_nonfinite z = Some z"
proof -
  have "bad_index z = []"
    using assms by (auto simp: bad_index_Nil set_ravel)
  then show ?thesis by (subst repair_nonfinite.simps) simp
qed

theorem repair_nonfinite_noop_witness: "repair_nonfinite finite_example = Some finite_example"
proof -
  have "wf_array finite_example" by code_simp
  moreover have "\<forall>v \<in> set (ravel finite_example). isfinite v" by code_simp
  ultimately show ?thesis by (rule repair_nonfinite_noop)
qed




subsection \<open>Entries alone in their window\<close>











subsection \<open>The peak and its neighbourhood\<close>

lemma argmax_loop_less: "mi < i \<Longrightarrow> argmax_loop mp mi i vs < i + length vs"
proof (induction vs arbitrary: mp mi i)
  case Nil
  then show ?case by simp
next
  case (Cons v vs)
  have "argmax_loop v i (Suc i) vs < Suc i + length vs"
    by (rule Cons.IH) simp
  moreover have "argmax_loop mp mi (Suc i) vs < Suc i + length vs"
    by (rule Cons.IH) (use Cons.prems in simp)
  ultimately show ?case by simp
qed

lemma argmax_less: "argmax xs = Inr k \<Longrightarrow> k < length xs"
  using argmax_loop_less [of 0 1 _ "tl xs"]
  by (cases xs) (auto simp: argmax_def split: if_splits)

lemma argmax_Inl: "argmax xs = Inl e \<longleftrightarrow> xs = [] \<and> e = ValueError"
  by (cases xs) (auto simp: argmax_def)

lemma length_ravel: "wf_array a \<Longrightarrow> length (ravel a) = shape0 a * shape1 a"
proof -
  assume wf: "wf_array a"
  have "map length (rows a) = replicate (shape0 a) (shape1 a)"
    using wf by (intro nth_equalityI) (simp_all add: wf_arrayD)
  then show ?thesis by (simp add: ravel_def length_concat sum_list_replicate)
qed

lemma peak_in_range:
  assumes "wf_array corr" "peak corr = Inr (row, col)"
  shows "row < shape0 corr \<and> col < shape1 corr"
proof -
  from assms(2) obtain k where k: "argmax (ravel corr) = Inr k"
      "row = k div shape1 corr" "col = k mod shape1 corr"
    by (auto simp: peak_def unravel_index_def split: sum.splits)
  from argmax_less [OF k(1)] have lt: "k < shape0 corr * shape1 corr"
    by (simp add: length_ravel assms(1))
  then have "0 < shape1 corr" by (cases "shape1 corr") simp_all
  with lt k(2,3) show ?thesis
    by (simp add: less_mult_imp_div_less)
qed

lemma peak_slice_bounds:
  assumes "p < n"
  shows "[slice_bound (max 0 (int p - 1)) n..<slice_bound (min (int p + 2) (int n - 1)) n] = peak_range p n"
    and "slice_len (max 0 (int p - 1)) (min (int p + 2) (int n - 1)) n = length (peak_range p n)"
proof -
  have a: "slice_bound (max 0 (int p - 1)) n = nat (max 0 (int p - 1))"
    using assms by (auto simp: slice_bound_def)
  have b: "slice_bound (min (int p + 2) (int n - 1)) n = nat (min (int p + 2) (int n - 1))"
    using assms by (auto simp: slice_bound_def)
  show "[slice_bound (max 0 (int p - 1)) n..<slice_bound (min (int p + 2) (int n - 1)) n] = peak_range p n"
    by (simp only: a b peak_range_def)
  show "slice_len (max 0 (int p - 1)) (min (int p + 2) (int n - 1)) n = length (peak_range p n)"
    by (simp only: a b peak_range_def slice_len_def length_upt)
qed

lemma array_around_maximum_neighbourhood:
  assumes "wf_array corr" "row < shape0 corr" "col < shape1 corr"
  shows "array_around_maximum corr row col = neighbourhood corr row col"
proof -
  have "rows (array_around_maximum corr row col) = rows (neighbourhood corr row col)"
    unfolding array_around_maximum_def rows_slice2 [OF assms(1)]
      peak_slice_bounds(1) [OF assms(2)] peak_slice_bounds(1) [OF assms(3)]
    by (simp add: neighbourhood_def)
  moreover have "shape0 (array_around_maximum corr row col) = shape0 (neighbourhood corr row col)"
    "shape1 (array_around_maximum corr row col) = shape1 (neighbourhood corr row col)"
    using peak_slice_bounds(2) [OF assms(2)] peak_slice_bounds(2) [OF assms(3)]
    by (simp_all add: array_around_maximum_def slice2_def neighbourhood_def)
  ultimately show ?thesis by simp
qed

lemma length_peak_range: "length (peak_range p n) \<le> 3"
  by (simp add: peak_range_def)


lemma get_correlation_shifts_small:
  assumes "shape0 a \<le> 3" "shape1 a \<le> 3"
  shows "fst (get_correlation_shifts a) = [] \<and> snd (get_correlation_shifts a) \<noteq> Inr None"
  using assms by (auto simp: get_correlation_shifts_def Let_def split: sum.splits prod.splits)

lemma get_correlation_shifts_Some:
  assumes "get_correlation_shifts a = (out, Inr (Some (ry, rx)))"
  shows "out = [] \<and>
    (\<exists>ly lx. peak a = Inr (ly, lx) \<and>
       (if shape0 a = 3 then parabolic_turning_point (map (\<lambda>r. r ! lx) (rows a)) = Inr ry
        else ry = Fin (real ly)) \<and>
       (if shape1 a = 3 then parabolic_turning_point (rows a ! ly) = Inr rx
        else rx = Fin (real lx)))"
  using assms
  by (auto simp: get_correlation_shifts_def Let_def peak_def split: sum.splits prod.splits if_splits)

lemma find_best_match_location_Inr:
  assumes "find_best_match_location corr = (out, Inr (ys, xs))"
  shows "\<exists>row col ry rx. peak corr = Inr (row, col) \<and>
     get_correlation_shifts (array_around_maximum corr row col) = (out, Inr (Some (ry, rx))) \<and>
     ys = fadd ry (Fin (real row)) \<and> xs = fadd rx (Fin (real col))"
  using assms
  by (auto simp: find_best_match_location_def split: sum.splits prod.splits option.splits)

lemma peak_exists:
  assumes "wf_array corr" "0 < shape0 corr" "0 < shape1 corr"
  shows "\<exists>row col. peak corr = Inr (row, col)"
proof -
  have "length (ravel corr) \<noteq> 0"
    using assms by (simp add: length_ravel)
  then obtain v vs where "ravel corr = v # vs" by (cases "ravel corr") auto
  then show ?thesis by (simp add: peak_def argmax_def unravel_index_def)
qed

text \<open>
  C9: a non-empty correlation surface has a peak \<open>(row, col)\<close>, a valid position; the
  array cut around the maximum is the surface on the rows \<open>max(0, row - 1) \<le> i < min(row + 2, height - 1)\<close>
  and the columns alike; it has at most 3 rows and 3 columns, so the refinement
  prints no message and returns no pair of Nones; and the shift is computed from the
  refinement of exactly that array.
\<close>

theorem neighbourhood_handed_to_refinement:
  assumes "wf_array corr" "0 < shape0 corr" "0 < shape1 corr"
  shows "\<exists>row col. peak corr = Inr (row, col) \<and> row < shape0 corr \<and> col < shape1 corr \<and>
    array_around_maximum corr row col = neighbourhood corr row col \<and>
    shape0 (array_around_maximum corr row col) \<le> 3 \<and>
    shape1 (array_around_maximum corr row col) \<le> 3 \<and>
    fst (get_correlation_shifts (array_around_maximum corr row col)) = [] \<and>
    snd (get_correlation_shifts (array_around_maximum corr row col)) \<noteq> Inr None \<and>
    find_best_match_location corr =
      (case get_correlation_shifts (neighbourhood corr row col) of
         (out, Inl e) \<Rightarrow> (out, Inl e)
       | (out, Inr None) \<Rightarrow> (out, Inl TypeError)
       | (out, Inr (Some (ry, rx))) \<Rightarrow>
           (out, Inr (fadd ry (Fin (real row)), fadd rx (Fin (real col)))))"
proof -
  from peak_exists [OF assms] obtain row col where pk: "peak corr = Inr (row, col)" by blast
  from peak_in_range [OF assms(1) pk] have rng: "row < shape0 corr" "col < shape1 corr"
    by simp_all
  have eq: "array_around_maximum corr row col = neighbourhood corr row col"
    by (rule array_around_maximum_neighbourhood [OF assms(1) rng])
  have sh: "shape0 (neighbourhood corr row col) \<le> 3" "shape1 (neighbourhood corr row col) \<le> 3"
    by (simp_all add: neighbourhood_def length_peak_range)
  have "peak corr = Inr (row, col) \<and> row < shape0 corr \<and> col < shape1 corr \<and>
    array_around_maximum corr row col = neighbourhood corr row col \<and>
    shape0 (array_around_maximum corr row col) \<le> 3 \<and>
    shape1 (array_around_maximum corr row col) \<le> 3 \<and>
    fst (get_correlation_shifts (array_around_maximum corr row col)) = [] \<and>
    snd (get_correlation_shifts (array_around_maximum corr row col)) \<noteq> Inr None \<and>
    find_best_match_location corr =
      (case get_correlation_shifts (neighbourhood corr row col) of
         (out, Inl e) \<Rightarrow> (out, Inl e)
       | (out, Inr None) \<Rightarrow> (out, Inl TypeError)
       | (out, Inr (Some (ry, rx))) \<Rightarrow>
           (out, Inr (fadd ry (Fin (real row)), fadd rx (Fin (real col)))))"
    using get_correlation_shifts_small [OF sh] sh rng
    by (simp add: eq find_best_match_location_def pk)
  then show ?thesis by blast
qed

theorem neighbourhood_handed_to_refinement_witness:
  "wf_array peak_example \<and> 0 < shape0 peak_example \<and> 0 < shape1 peak_example \<and>
   peak peak_example = Inr (1, 1) \<and>
   array_around_maximum peak_example 1 1 =
     \<lparr>shape0 = 3, shape1 = 3,
      rows = [[Fin 0, Fin (1 / 2), Fin 0], [Fin (1 / 4), Fin 1, Fin (1 / 4)],
              [Fin 0, Fin (3 / 4), Fin 0]]\<rparr> \<and>
   shape0 (array_around_maximum peak_example 1 1) \<le> 3 \<and>
   shape1 (array_around_maximum peak_example 1 1) \<le> 3"
proof -
  have h1: "wf_array peak_example" by code_simp
  have h2: "0 < shape0 peak_example" "0 < shape1 peak_example"
    by (simp_all add: peak_example_def)
  have pk: "peak peak_example = Inr (1, 1)" by code_simp
  have v: "neighbourhood peak_example 1 1 =
     \<lparr>shape0 = 3, shape1 = 3,
      rows = [[Fin 0, Fin (1 / 2), Fin 0], [Fin (1 / 4), Fin 1, Fin (1 / 4)],
              [Fin 0, Fin (3 / 4), Fin 0]]\<rparr>" by code_simp
  from neighbourhood_handed_to_refinement [OF h1 h2] obtain row col where
    r: "peak peak_example = Inr (row, col)"
      "array_around_maximum peak_example row col = neighbourhood peak_example row col"
      "shape0 (array_around_maximum peak_example row col) \<le> 3"
      "shape1 (array_around_maximum peak_example row col) \<le> 3"
    by blast
  from r(1) pk have "row = 1" "col = 1" by simp_all
  with r v h1 h2 pk show ?thesis by simp
qed



subsection \<open>The shift\<close>

lemma calculate_shift_example:
  "calculate_shift (\<lambda>l t. Inr peak_example) finite_example finite_example =
     Some ([], Inr (Fin (7 / 6), Fin 1))"
proof -
  have "bad_index finite_example = []" by code_simp
  then have r: "repair_nonfinite finite_example = Some finite_example"
    by (rule repair_unfold_Nil)
  have f: "find_best_match_location peak_example = ([], Inr (Fin (7 / 6), Fin 1))"
    by code_simp
  show ?thesis by (simp add: calculate_shift_def match_template_to_layer_def r f)
qed

text \<open>
  C1, as stated: the shift is the local offset of the refinement plus the local
  maximum of the neighbourhood plus the peak of the surface.  On the example the
  refinement gives \<open>(1/6, 0)\<close>, the local maximum is \<open>(1, 1)\<close> and the peak is
  \<open>(1, 1)\<close>: the sum is \<open>(13/6, 2)\<close>, but the code returns \<open>(7/6, 1)\<close>.
\<close>

theorem calculate_shift_local_max_not_added:
  "calculate_shift (\<lambda>l t. Inr peak_example) finite_example finite_example =
     Some ([], Inr (Fin (7 / 6), Fin 1)) \<and>
   peak peak_example = Inr (1, 1) \<and>
   get_correlation_shifts (array_around_maximum peak_example 1 1) =
     ([], Inr (Some (Fin (1 / 6), Fin 0))) \<and>
   peak (array_around_maximum peak_example 1 1) = Inr (1, 1) \<and>
   fadd (fadd (Fin (1 / 6)) (Fin 1)) (Fin 1) = Fin (13 / 6) \<and>
   fadd (fadd (Fin 0) (Fin 1)) (Fin 1) = Fin 2 \<and>
   (Fin (7 / 6), Fin 1) \<noteq> (Fin (13 / 6), Fin 2)"
proof (intro conjI)
  show "calculate_shift (\<lambda>l t. Inr peak_example) finite_example finite_example =
     Some ([], Inr (Fin (7 / 6), Fin 1))" by (rule calculate_shift_example)
  show "peak peak_example = Inr (1, 1)" by code_simp
  show "get_correlation_shifts (array_around_maximum peak_example 1 1) =
     ([], Inr (Some (Fin (1 / 6), Fin 0)))" by code_simp
  show "peak (array_around_maximum peak_example 1 1) = Inr (1, 1)" by code_simp
qed simp_all

text \<open>
  C1, amended: whenever \<^verbatim>\<open>calculate_shift\<close> returns a pair, both repairs returned,
  the correlation has a peak, and each coordinate of the pair is the result of the
  refinement plus the peak index of the surface on that axis, where the result of the
  refinement is the parabolic offset on an axis of length 3 and the index of the
  local maximum otherwise.  The local maximum is never added to a parabolic offset.
\<close>

theorem calculate_shift_adds_peak_location:
  assumes "calculate_shift match_template layer template = Some (out, Inr (ys, xs))"
  shows "\<exists>layer' template' corr row col ly lx ry rx.
     repair_nonfinite layer = Some layer' \<and> repair_nonfinite template = Some template' \<and>
     match_template layer' template' = Inr corr \<and> peak corr = Inr (row, col) \<and>
     get_correlation_shifts (array_around_maximum corr row col) = (out, Inr (Some (ry, rx))) \<and>
     peak (array_around_maximum corr row col) = Inr (ly, lx) \<and>
     (if shape0 (array_around_maximum corr row col) = 3
      then parabolic_turning_point
             (map (\<lambda>r. r ! lx) (rows (array_around_maximum corr row col))) = Inr ry
      else ry = Fin (real ly)) \<and>
     (if shape1 (array_around_maximum corr row col) = 3
      then parabolic_turning_point (rows (array_around_maximum corr row col) ! ly) = Inr rx
      else rx = Fin (real lx)) \<and>
     ys = fadd ry (Fin (real row)) \<and> xs = fadd rx (Fin (real col))"
proof -
  from assms obtain layer' template' corr where
    a: "repair_nonfinite layer = Some layer'" "repair_nonfinite template = Some template'"
      "match_template layer' template' = Inr corr"
      "find_best_match_location corr = (out, Inr (ys, xs))"
    by (auto simp: calculate_shift_def match_template_to_layer_def
        split: option.splits sum.splits)
  from find_best_match_location_Inr [OF a(4)] obtain row col ry rx where
    b: "peak corr = Inr (row, col)"
      "get_correlation_shifts (array_around_maximum corr row col) = (out, Inr (Some (ry, rx)))"
      "ys = fadd ry (Fin (real row))" "xs = fadd rx (Fin (real col))"
    by blast
  from get_correlation_shifts_Some [OF b(2)] obtain ly lx where
    c: "peak (array_around_maximum corr row col) = Inr (ly, lx)"
      "if shape0 (array_around_maximum corr row col) = 3
       then parabolic_turning_point
             (map (\<lambda>r. r ! lx) (rows (array_around_maximum corr row col))) = Inr ry
       else ry = Fin (real ly)"
      "if shape1 (array_around_maximum corr row col) = 3
       then parabolic_turning_point (rows (array_around_maximum corr row col) ! ly) = Inr rx
       else rx = Fin (real lx)"
    by blast
  from a(1-3) b c show ?thesis by blast
qed

theorem calculate_shift_adds_peak_location_witness:
  "calculate_shift (\<lambda>l t. Inr peak_example) finite_example finite_example =
     Some ([], Inr (Fin (7 / 6), Fin 1)) \<and>
   (\<exists>corr row col ry rx.
      peak corr = Inr (row, col) \<and>
      get_correlation_shifts (array_around_maximum corr row col) = ([], Inr (Some (ry, rx))) \<and>
      Fin (7 / 6) = fadd ry (Fin (real row)) \<and> Fin 1 = fadd rx (Fin (real col)))"
  using calculate_shift_adds_peak_location [OF calculate_shift_example] calculate_shift_example by blast

subsection \<open>Clipping\<close>

lemma fold_max_Max: "fold max cs (c :: int) = Max (set (c # cs))"
  by (rule Max.set_eq_fold [symmetric])

lemma upper_clip_margin: "upper_clip z = margin_upper z"
proof (cases "map ceiling (filter (\<lambda>v. 0 \<le> v) z)")
  case Nil
  then have "\<not> (\<exists>v \<in> set z. 0 \<le> v)" by (simp add: filter_empty_conv)
  with Nil show ?thesis by (simp add: upper_clip_def margin_upper_def)
next
  case (Cons c cs)
  then have "filter (\<lambda>v. 0 \<le> v) z \<noteq> []" by auto
  then have ex: "\<exists>v \<in> set z. 0 \<le> v" by (simp add: filter_empty_conv)
  have "upper_clip z = Max (set (c # cs))"
    by (simp only: upper_clip_def Cons list.case fold_max_Max)
  also have "set (c # cs) = set (map ceiling (filter (\<lambda>v. 0 \<le> v) z))"
    by (simp only: Cons)
  also have "\<dots> = (\<lambda>v. \<lceil>v\<rceil>) ` {v \<in> set z. 0 \<le> v}" by auto
  finally show ?thesis using ex by (simp add: margin_upper_def)
qed

lemma lower_clip_margin: "lower_clip z = margin_lower z"
proof (cases "map (\<lambda>v. \<lceil>- v\<rceil>) (filter (\<lambda>v. v \<le> 0) z)")
  case Nil
  then have "\<not> (\<exists>v \<in> set z. v \<le> 0)" by (simp add: filter_empty_conv)
  with Nil show ?thesis by (simp add: lower_clip_def margin_lower_def)
next
  case (Cons c cs)
  then have "filter (\<lambda>v. v \<le> 0) z \<noteq> []" by auto
  then have ex: "\<exists>v \<in> set z. v \<le> 0" by (simp add: filter_empty_conv)
  have "lower_clip z = Max (set (c # cs))"
    by (simp only: lower_clip_def Cons list.case fold_max_Max)
  also have "set (c # cs) = set (map (\<lambda>v. \<lceil>- v\<rceil>) (filter (\<lambda>v. v \<le> 0) z))"
    by (simp only: Cons)
  also have "\<dots> = (\<lambda>v. \<lceil>- v\<rceil>) ` {v \<in> set z. v \<le> 0}" by auto
  finally show ?thesis using ex by (simp add: margin_lower_def)
qed

lemma slice_all: "slice 0 (int (length xs)) xs = xs"
  by (simp add: slice_def slice_len_def slice_bound_def)

lemma wf_cubeD:
  "wf_cube d \<Longrightarrow> length (planes d) = cshape0 d"
  "wf_cube d \<Longrightarrow> p \<in> set (planes d) \<Longrightarrow> length p = cshape1 d"
  "wf_cube d \<Longrightarrow> p \<in> set (planes d) \<Longrightarrow> r \<in> set p \<Longrightarrow> length r = cshape2 d"
  by (auto simp: wf_cube_def list_all_iff)

lemma set_slice: "set (slice a b xs) \<subseteq> set xs"
  unfolding slice_def by (meson set_take_subset set_drop_subset subset_trans)

lemma slice3_subcube:
  assumes "wf_cube d"
  shows "slice3 d a0 a1 b0 b1 0 (int (cshape2 d)) = subcube d a0 a1 b0 b1"
proof -
  have len: "slice_len 0 (int (cshape2 d)) (cshape2 d) = cshape2 d"
    by (simp add: slice_len_def slice_bound_def)
  have "map (slice 0 (int (cshape2 d))) (slice b0 b1 p) = slice b0 b1 p"
    if "p \<in> set (slice a0 a1 (planes d))" for p
  proof -
    have "p \<in> set (planes d)" using that set_slice [of a0 a1 "planes d"] by auto
    then have "slice 0 (int (cshape2 d)) r = r" if "r \<in> set (slice b0 b1 p)" for r
      using that set_slice [of b0 b1 p] wf_cubeD(3) [OF assms, of p r] slice_all [of r]
      by auto
    then show ?thesis by (simp add: map_idI)
  qed
  then have "map (\<lambda>p. map (slice 0 (int (cshape2 d))) (slice b0 b1 p)) (slice a0 a1 (planes d)) =
      map (slice b0 b1) (slice a0 a1 (planes d))"
    by (intro map_cong refl)
  then show ?thesis by (simp add: slice3_def subcube_def len)
qed

lemma wf_subcube:
  assumes "wf_cube d"
  shows "wf_cube (subcube d a0 a1 b0 b1)"
proof -
  have "length (slice b0 b1 p) = slice_len b0 b1 (cshape1 d) \<and>
        (\<forall>r \<in> set (slice b0 b1 p). length r = cshape2 d)"
    if "p \<in> set (slice a0 a1 (planes d))" for p
  proof -
    have p: "p \<in> set (planes d)" using that set_slice [of a0 a1 "planes d"] by auto
    then show ?thesis
      using set_slice [of b0 b1 p] wf_cubeD(2,3) [OF assms p]
      by (auto simp: length_slice)
  qed
  then show ?thesis
    using assms by (auto simp: wf_cube_def subcube_def list_all_iff length_slice)
qed

text \<open>
  C7: \<^verbatim>\<open>clip_edges\<close> returns
  \<^verbatim>\<open>datacube[y_lower : ny - y_upper - 1, x_lower : nx - x_upper - 1, :]\<close> with the
  margins of the specification, a well-formed datacube; for the shifts
  \<open>y = [2, -1, 0]\<close>, \<open>x = [0, 0, 0]\<close> on a datacube of shape \<open>(10, 10, 3)\<close> the
  result has shape \<open>(6, 9, 3)\<close>.
\<close>

theorem clip_edges_margins:
  assumes "wf_cube d"
  shows "clip_edges d y x =
      subcube d (margin_lower y) (int (cshape0 d) - margin_upper y - 1)
                (margin_lower x) (int (cshape1 d) - margin_upper x - 1) \<and>
    wf_cube (clip_edges d y x) \<and>
    (cshape0 d = 10 \<and> cshape1 d = 10 \<and> cshape2 d = 3 \<longrightarrow>
       cshape0 (clip_edges d [2, - 1, 0] [0, 0, 0]) = 6 \<and>
       cshape1 (clip_edges d [2, - 1, 0] [0, 0, 0]) = 9 \<and>
       cshape2 (clip_edges d [2, - 1, 0] [0, 0, 0]) = 3)"
proof -
  have eq: "clip_edges d y x =
      subcube d (margin_lower y) (int (cshape0 d) - margin_upper y - 1)
                (margin_lower x) (int (cshape1 d) - margin_upper x - 1)" for y x
    by (simp add: clip_edges_def Let_def slice3_subcube [OF assms]
        upper_clip_margin lower_clip_margin)
  have m: "upper_clip [2, - 1, 0] = 2" "lower_clip [2, - 1, 0] = 1"
    "upper_clip [0, 0, 0] = 0" "lower_clip [0, 0, 0] = 0"
    by (simp_all add: upper_clip_def lower_clip_def)
  have ex: "cshape0 d = 10 \<and> cshape1 d = 10 \<and> cshape2 d = 3 \<longrightarrow>
       cshape0 (clip_edges d [2, - 1, 0] [0, 0, 0]) = 6 \<and>
       cshape1 (clip_edges d [2, - 1, 0] [0, 0, 0]) = 9 \<and>
       cshape2 (clip_edges d [2, - 1, 0] [0, 0, 0]) = 3"
    by (simp add: clip_edges_def Let_def m slice3_def slice_len_def slice_bound_def)
  show ?thesis
    using eq [of y x] wf_subcube [OF assms] ex by simp
qed

theorem clip_edges_margins_witness:
  "wf_cube cube_example \<and>
   wf_cube (clip_edges cube_example [2, - 1, 0] [0, 0, 0]) \<and>
   cshape0 (clip_edges cube_example [2, - 1, 0] [0, 0, 0]) = 6 \<and>
   cshape1 (clip_edges cube_example [2, - 1, 0] [0, 0, 0]) = 9 \<and>
   cshape2 (clip_edges cube_example [2, - 1, 0] [0, 0, 0]) = 3 \<and>
   length (planes (clip_edges cube_example [2, - 1, 0] [0, 0, 0])) = 6 \<and>
   hd (planes (clip_edges cube_example [2, - 1, 0] [0, 0, 0])) =
     map (\<lambda>j. [(1, j, 0), (1, j, 1), (1, j, 2)]) [0..<9]"
proof -
  have h: "wf_cube cube_example" by code_simp
  have s: "cshape0 cube_example = 10 \<and> cshape1 cube_example = 10 \<and> cshape2 cube_example = 3"
    by (simp add: cube_example_def)
  have v: "length (planes (clip_edges cube_example [2, - 1, 0] [0, 0, 0])) = 6"
    "hd (planes (clip_edges cube_example [2, - 1, 0] [0, 0, 0])) =
     map (\<lambda>j. [(1, j, 0), (1, j, 1), (1, j, 2)]) [0..<9]"
    by code_simp+
  from clip_edges_margins [OF h, of "[2, - 1, 0]" "[0, 0, 0]"] s h v show ?thesis by blast
qed

end
